theory Spec2Isabelle
  imports Main
begin

section \<open>Data model\<close>

text \<open>
  Document ids (Mongo ObjectIds) are compared through their string form, so they are strings.
  Prices, stocks and quantities are JavaScript numbers, that is IEEE doubles. They are
  modelled as integers: the model and the code agree as long as every number is a whole
  number of magnitude at most \<open>MAX_SAFE_INTEGER\<close>, the range in which the sums, differences
  and products of doubles are exact. A statement about an amount carries that bound as a
  hypothesis; fractional prices and larger numbers are outside the model.
  Strings are byte strings; \<open>toLowerCase\<close> and the \<open>i\<close> option of a regular
  expression are modelled on ASCII letters, and a statement about letter case carries the
  hypothesis that its strings are ASCII.
\<close>

type_synonym oid = string


datatype error =
    ValidationError
  | NotFound
  | Forbidden
  | InsufficientStock
  | InvalidState
  | VerificationFailed
  | UnexpectedError

record product =
  name :: string
  price :: int
  stock :: int
  category :: string
  featured :: bool

text \<open>A line item of the request body of \<open>POST /orders\<close>.\<close>

record item =
  product :: oid
  quantity :: int
  isize :: string
  color :: string

text \<open>A line item as pushed onto \<open>orderItems\<close> and stored in the order.\<close>

record order_item =
  item_product :: oid
  item_quantity :: int
  item_price :: int
  item_size :: string
  item_color :: string

record payment_info =
  pay_id :: "string option"
  pay_status :: "string option"
  pay_method :: string

record order =
  user :: oid
  items :: "order_item list"
  totalAmount :: int
  shippingAddress :: string
  paymentInfo :: payment_info
  status :: string
  cancellationReason :: "string option"

text \<open>The two collections the order routes read and write.\<close>

record db =
  products :: "oid \<rightharpoonup> product"
  orders :: "oid \<rightharpoonup> order"

text \<open>\<open>req.user\<close>, as resolved by the authentication middleware.\<close>

record requester =
  uid :: oid
  role :: string

record create_req =
  req_items :: "item list option"
  req_shippingAddress :: string
  req_paymentMethod :: "string option"

section \<open>Strings\<close>

definition toLowerChar :: "char \<Rightarrow> char" where
  "toLowerChar c =
     (case map_of (zip ''ABCDEFGHIJKLMNOPQRSTUVWXYZ'' ''abcdefghijklmnopqrstuvwxyz'') c of
        Some l \<Rightarrow> l
      | None \<Rightarrow> c)"

definition toLowerCase :: "string \<Rightarrow> string" where
  "toLowerCase s = map toLowerChar s"

section \<open>Order creation (orders.js, POST /)\<close>

text \<open>
  The body of \<open>for (const item of items)\<close>, lines 68-93: look the product up, return 404
  or 400, otherwise add to the total, push the snapshot item, subtract the quantity from
  the stock and save the product at once. The database reached so far is returned with an
  error too, since every save before the error has been persisted.
\<close>

fun processItems ::
  "item list \<Rightarrow> int \<Rightarrow> order_item list \<Rightarrow> db \<Rightarrow> (error + int \<times> order_item list) \<times> db" where
  "processItems [] amount acc d = (Inr (amount, acc), d)"
| "processItems (it # rest) amount acc d =
     (case products d (product it) of
        None \<Rightarrow> (Inl NotFound, d)
      | Some p \<Rightarrow>
          if stock p < quantity it then (Inl InsufficientStock, d)
          else processItems rest (amount + price p * quantity it)
                 (acc @ [\<lparr>item_product = product it, item_quantity = quantity it,
                          item_price = price p, item_size = isize it,
                          item_color = color it\<rparr>])
                 (d\<lparr>products := (products d)(product it \<mapsto> p\<lparr>stock := stock p - quantity it\<rparr>)\<rparr>))"

text \<open>
  Modelled from the spec: the Order model (models/Order.js) is not among the sources; by the
  specification's data model and its contract of order creation, a new order that names no
  status is stored with the status \<open>pending\<close>.
\<close>

definition defaultStatus :: string where
  [simp]: "defaultStatus = ''pending''"

text \<open>
  The route handler. \<open>newId\<close> is the \<open>_id\<close> the persistence layer gives the new
  document. An absent \<open>paymentMethod\<close> makes \<open>paymentMethod.toLowerCase()\<close> (line 96)
  throw a TypeError, which the \<open>catch\<close> of line 113 turns into the 500 response, after
  the loop has saved the stocks. Saving the order is taken to succeed: the validation of
  the Order model is not part of the sources.
\<close>

definition createOrder :: "oid \<Rightarrow> requester \<Rightarrow> create_req \<Rightarrow> db \<Rightarrow> (error + order) \<times> db" where
  "createOrder newId u r d =
     (case req_items r of
        None \<Rightarrow> (Inl ValidationError, d)
      | Some its \<Rightarrow>
          if its = [] then (Inl ValidationError, d)
          else
            (case processItems its 0 [] d of
               (Inl e, d') \<Rightarrow> (Inl e, d')
             | (Inr (amount, orderItems), d') \<Rightarrow>
                 (case req_paymentMethod r of
                    None \<Rightarrow> (Inl UnexpectedError, d')
                  | Some pm \<Rightarrow>
                      let amount' = (if toLowerCase pm = ''cod'' then amount + 50 else amount);
                          ord = \<lparr>user = uid u, items = orderItems, totalAmount = amount',
                                 shippingAddress = req_shippingAddress r,
                                 paymentInfo = \<lparr>pay_id = None, pay_status = None,
                                   pay_method = (if pm = [] then ''Razorpay'' else pm)\<rparr>,
                                 status = defaultStatus, cancellationReason = None\<rparr>
                      in (Inr ord, d'\<lparr>orders := (orders d')(newId \<mapsto> ord)\<rparr>))))"

section \<open>Order cancellation (orders.js, PUT /:id/cancel)\<close>

text \<open>
  The loop of lines 166-172: each item's product is looked up again; a product that is
  gone is skipped, otherwise the quantity is added back and the product saved.
\<close>

fun restoreStock :: "order_item list \<Rightarrow> db \<Rightarrow> db" where
  "restoreStock [] d = d"
| "restoreStock (oi # rest) d =
     restoreStock rest
       (case products d (item_product oi) of
          None \<Rightarrow> d
        | Some p \<Rightarrow>
            d\<lparr>products := (products d)(item_product oi \<mapsto> p\<lparr>stock := stock p + item_quantity oi\<rparr>)\<rparr>)"

text \<open>\<open>!reason\<close> holds of an absent and of an empty string.\<close>

definition cancelOrder ::
  "requester \<Rightarrow> oid \<Rightarrow> string option \<Rightarrow> db \<Rightarrow> (error + order) \<times> db" where
  "cancelOrder u orderId reason d =
     (case reason of
        None \<Rightarrow> (Inl ValidationError, d)
      | Some r \<Rightarrow>
          if r = [] then (Inl ValidationError, d)
          else
            (case orders d orderId of
               None \<Rightarrow> (Inl NotFound, d)
             | Some ord \<Rightarrow>
                 if role u \<noteq> ''admin'' \<and> user ord \<noteq> uid u then (Inl Forbidden, d)
                 else if status ord \<in> set [''delivered'', ''cancelled''] then (Inl InvalidState, d)
                 else
                   let d' = restoreStock (items ord) d;
                       ord' = ord\<lparr>status := ''cancelled'', cancellationReason := Some r\<rparr>
                   in (Inr ord', d'\<lparr>orders := (orders d')(orderId \<mapsto> ord')\<rparr>)))"

section \<open>Reading one order and the admin status update (orders.js)\<close>



text \<open>
  \<open>PUT /:id/status\<close> runs behind the \<open>isAdmin\<close> middleware; the handler itself looks
  the order up and overwrites its status with the one of the request body.
\<close>

definition updateStatus :: "oid \<Rightarrow> string \<Rightarrow> db \<Rightarrow> (error + order) \<times> db" where
  "updateStatus orderId st d =
     (case orders d orderId of
        None \<Rightarrow> (Inl NotFound, d)
      | Some ord \<Rightarrow>
          let ord' = ord\<lparr>status := st\<rparr>
          in (Inr ord', d\<lparr>orders := (orders d)(orderId \<mapsto> ord')\<rparr>))"

section \<open>Payment verification (payments.js, POST /verify)\<close>

record verify_req =
  razorpay_order_id :: "string option"
  razorpay_payment_id :: "string option"
  razorpay_signature :: "string option"
  order_id :: "string option"

record verify_resp =
  resp_success :: bool
  resp_message :: string
  resp_orderId :: string
  resp_paymentId :: string

text \<open>
  \<open>hmac key msg\<close> stands for
  \<open>crypto.createHmac('sha256', key).update(msg).digest('hex')\<close> of the crypto library, and
  \<open>secret\<close> for \<open>process.env.RAZORPAY_KEY_SECRET || 'your_test_secret_key'\<close>.
\<close>

definition verifyPayment ::
  "(string \<Rightarrow> string \<Rightarrow> string) \<Rightarrow> string \<Rightarrow> verify_req \<Rightarrow> db \<Rightarrow> (error + verify_resp) \<times> db" where
  "verifyPayment hmac secret r d =
     (case (razorpay_order_id r, razorpay_payment_id r, razorpay_signature r) of
        (Some gwOrder, Some gwPayment, Some signature) \<Rightarrow>
          if gwOrder = [] \<or> gwPayment = [] \<or> signature = [] then (Inl ValidationError, d)
          else
            let body = gwOrder @ ''|'' @ gwPayment;
                expectedSignature = hmac secret body
            in if expectedSignature \<noteq> signature then (Inl VerificationFailed, d)
               else
                 let d' =
                   (case order_id r of
                      None \<Rightarrow> d
                    | Some localId \<Rightarrow>
                        if localId = [] then d
                        else
                          (case orders d localId of
                             None \<Rightarrow> d
                           | Some ord \<Rightarrow>
                               d\<lparr>orders := (orders d)(localId \<mapsto>
                                 ord\<lparr>paymentInfo := \<lparr>pay_id = Some gwPayment,
                                        pay_status = Some ''completed'',
                                        pay_method = ''Razorpay''\<rparr>,
                                      status := ''processing''\<rparr>)\<rparr>))
                 in (Inr \<lparr>resp_success = True,
                           resp_message = ''Payment verified successfully'',
                           resp_orderId = gwOrder, resp_paymentId = gwPayment\<rparr>, d')
      | _ \<Rightarrow> (Inl ValidationError, d))"

section \<open>Catalog listing (products.js, GET /)\<close>








section \<open>Specification-level measures\<close>



fun restorable :: "oid \<Rightarrow> order_item list \<Rightarrow> int" where
  "restorable pid [] = 0"
| "restorable pid (oi # rest) =
     (if item_product oi = pid then item_quantity oi else 0) + restorable pid rest"





section \<open>Example data\<close>

definition shirt :: product where
  "shirt = \<lparr>name = ''Shirt'', price = 100, stock = 5, category = ''men'', featured = False\<rparr>"

definition jeans :: product where
  "jeans = \<lparr>name = ''Blue Jeans'', price = 250, stock = 3, category = ''men'', featured = True\<rparr>"

definition alice :: requester where
  "alice = \<lparr>uid = ''u1'', role = ''user''\<rparr>"


definition root :: requester where
  "root = \<lparr>uid = ''u0'', role = ''admin''\<rparr>"

definition line :: "oid \<Rightarrow> int \<Rightarrow> item" where
  "line pid q = \<lparr>product = pid, quantity = q, isize = ''M'', color = ''red''\<rparr>"

definition db0 :: db where
  "db0 = \<lparr>products = [''p2'' \<mapsto> jeans, ''p1'' \<mapsto> shirt], orders = Map.empty\<rparr>"

text \<open>Alice's order of two shirts, as \<open>createOrder\<close> stores it, and the stock it leaves.\<close>

definition order1 :: order where
  "order1 = \<lparr>user = ''u1'',
     items = [\<lparr>item_product = ''p1'', item_quantity = 2, item_price = 100,
               item_size = ''M'', item_color = ''red''\<rparr>],
     totalAmount = 250, shippingAddress = ''12 Hill Road'',
     paymentInfo = \<lparr>pay_id = None, pay_status = None, pay_method = ''cod''\<rparr>,
     status = ''pending'', cancellationReason = None\<rparr>"

definition db1 :: db where
  "db1 = \<lparr>products = [''p2'' \<mapsto> jeans, ''p1'' \<mapsto> shirt\<lparr>stock := 3\<rparr>],
          orders = [''o1'' \<mapsto> order1]\<rparr>"

text \<open>The same order once delivered.\<close>

definition delivered1 :: order where
  "delivered1 = order1\<lparr>status := ''delivered''\<rparr>"

definition db2 :: db where
  "db2 = \<lparr>products = [''p2'' \<mapsto> jeans, ''p1'' \<mapsto> shirt\<lparr>stock := 3\<rparr>],
          orders = [''o1'' \<mapsto> delivered1]\<rparr>"


text \<open>A stand-in for the keyed hash in the examples.\<close>

definition toyHmac :: "string \<Rightarrow> string \<Rightarrow> string" where
  "toyHmac key msg = key @ ''#'' @ msg"

section \<open>The loop of order creation\<close>

lemma processItems_orders:
  "processItems its a acc d = (res, d') \<Longrightarrow> orders d' = orders d"
proof (induction its arbitrary: a acc d)
  case Nil
  then show ?case by simp
next
  case (Cons it rest)
  then show ?case
    by (auto split: option.splits if_splits)
qed


lemma processItems_nonneg:
  "processItems its a acc d = (res, d') \<Longrightarrow>
   \<forall>pid p. products d pid = Some p \<longrightarrow> 0 \<le> stock p \<Longrightarrow>
   products d' pid = Some p \<Longrightarrow> 0 \<le> stock p"
proof (induction its arbitrary: a acc d)
  case Nil
  then show ?case by auto
next
  case (Cons it rest)
  show ?case
  proof (cases "products d (product it)")
    case None
    with Cons.prems show ?thesis by auto
  next
    case (Some q)
    show ?thesis
    proof (cases "stock q < quantity it")
      case True
      with Some Cons.prems show ?thesis by auto
    next
      case False
      let ?d1 = "d\<lparr>products := (products d)(product it \<mapsto> q\<lparr>stock := stock q - quantity it\<rparr>)\<rparr>"
      from Some False Cons.prems(1) obtain a1 acc1 where
        run: "processItems rest a1 acc1 ?d1 = (res, d')" by auto
      have inv: "\<forall>pid p. products ?d1 pid = Some p \<longrightarrow> 0 \<le> stock p"
        using Cons.prems(2) False by auto
      from Cons.IH [OF run inv Cons.prems(3)] show ?thesis .
    qed
  qed
qed




section \<open>The loop of cancellation\<close>


lemma restoreStock_products:
  "products (restoreStock its d) pid =
     map_option (\<lambda>p. p\<lparr>stock := stock p + restorable pid its\<rparr>) (products d pid)"
proof (induction its arbitrary: d)
  case Nil
  show ?case by (simp add: option.map_ident)
next
  case (Cons oi rest)
  show ?case
    by (cases "products d (item_product oi)") (auto simp: Cons.IH split: option.splits)
qed


lemma cancelOrder_terminal:
  "orders d i = Some ord \<Longrightarrow> status ord = ''delivered'' \<or> status ord = ''cancelled'' \<Longrightarrow>
   isl (fst (cancelOrder u i reason d)) \<and> snd (cancelOrder u i reason d) = d"
  by (auto simp: cancelOrder_def Let_def split: option.splits)

section \<open>Plain search terms\<close>






section \<open>Claims about order creation\<close>

text \<open>
  C10. Order creation keeps every stock non-negative: if no product has a negative stock
  before the request, none has one after it, whatever the request is (the same product
  in several line items, any quantities) and whether it ends in success or in an error.
  Every line item reads the stock the items before it have left and subtracts only when
  that stock is at least the quantity.
\<close>

theorem createOrder_stock_nonneg:
  assumes "\<forall>pid p. products d pid = Some p \<longrightarrow> 0 \<le> stock p"
    and "products (snd (createOrder newId u r d)) pid = Some p"
  shows "0 \<le> stock p"
proof (cases "req_items r")
  case None
  with assms show ?thesis by (simp add: createOrder_def)
next
  case (Some its)
  obtain res d1 where run: "processItems its 0 [] d = (res, d1)"
    by (cases "processItems its 0 [] d") auto
  have inv: "\<And>q. products d1 pid = Some q \<Longrightarrow> 0 \<le> stock q"
    using processItems_nonneg [OF run assms(1)] by blast
  have "products (snd (createOrder newId u r d)) pid = products d pid \<or>
        products (snd (createOrder newId u r d)) pid = products d1 pid"
    using Some run
    by (auto simp: createOrder_def Let_def split: sum.splits option.splits prod.splits)
  with assms inv show ?thesis by auto
qed

theorem createOrder_stock_nonneg_witness:
  "products (snd (createOrder ''o1'' alice
       \<lparr>req_items = Some [line ''p1'' 3, line ''p1'' 2, line ''p1'' 1],
        req_shippingAddress = ''12 Hill Road'', req_paymentMethod = Some ''card''\<rparr> db0)) ''p1''
     = Some (shirt\<lparr>stock := 0\<rparr>) \<and> (0::int) \<le> stock (shirt\<lparr>stock := 0\<rparr>)"
proof -
  have start: "\<forall>pid p. products db0 pid = Some p \<longrightarrow> 0 \<le> stock p"
    by (simp add: db0_def shirt_def jeans_def)
  have after: "products (snd (createOrder ''o1'' alice
       \<lparr>req_items = Some [line ''p1'' 3, line ''p1'' 2, line ''p1'' 1],
        req_shippingAddress = ''12 Hill Road'', req_paymentMethod = Some ''card''\<rparr> db0)) ''p1''
     = Some (shirt\<lparr>stock := 0\<rparr>)"
    by (simp add: createOrder_def db0_def shirt_def jeans_def line_def)
  from createOrder_stock_nonneg [OF start after] after show ?thesis by simp
qed






text \<open>
  C8. With the payment method left out, order creation never succeeds and stores no order:
  the loop runs, and saves its deductions, before \<open>paymentMethod.toLowerCase()\<close> throws.
  The default of \<open>paymentMethod || 'Razorpay'\<close> is reached only for an empty string.
\<close>

theorem createOrder_without_paymentMethod:
  assumes "req_paymentMethod r = None"
  shows "isl (fst (createOrder newId u r d))
       \<and> orders (snd (createOrder newId u r d)) = orders d"
proof -
  obtain res d1 where run: "processItems (the (req_items r)) 0 [] d = (res, d1)"
    by (cases "processItems (the (req_items r)) 0 [] d") auto
  from processItems_orders [OF run] have "orders d1 = orders d" .
  with run assms show ?thesis
    by (auto simp: createOrder_def split: option.splits sum.splits)
qed

theorem createOrder_without_paymentMethod_witness:
  "createOrder ''o1'' alice
     \<lparr>req_items = Some [line ''p1'' 2], req_shippingAddress = ''12 Hill Road'',
      req_paymentMethod = None\<rparr> db0
   = (Inl UnexpectedError,
      \<lparr>products = [''p2'' \<mapsto> jeans, ''p1'' \<mapsto> shirt\<lparr>stock := 3\<rparr>], orders = Map.empty\<rparr>)"
proof -
  have "isl (fst (createOrder ''o1'' alice
     \<lparr>req_items = Some [line ''p1'' 2], req_shippingAddress = ''12 Hill Road'',
      req_paymentMethod = None\<rparr> db0))"
    using createOrder_without_paymentMethod
      [of "\<lparr>req_items = Some [line ''p1'' 2], req_shippingAddress = ''12 Hill Road'',
            req_paymentMethod = None\<rparr>" "''o1''" alice db0]
    by simp
  then show ?thesis
    by (simp add: createOrder_def db0_def shirt_def jeans_def line_def)
qed

section \<open>Claims about cancellation\<close>





section \<open>Claims about the life of an order\<close>

text \<open>
  C5. The code does not keep a delivered or cancelled order as it is. The cancel route does:
  it fails on such an order and changes nothing. The admin status update gives the order
  whatever status the request names, and a verified payment that names the order sets it to
  processing.
\<close>

theorem terminal_status_overwritten:
  assumes "orders d i = Some ord"
    and "status ord = ''delivered'' \<or> status ord = ''cancelled''"
    and "i \<noteq> []" and "gwOrder \<noteq> []" and "gwPayment \<noteq> []"
    and "hmac secret (gwOrder @ ''|'' @ gwPayment) \<noteq> []"
  shows "orders (snd (updateStatus i st d)) i = Some (ord\<lparr>status := st\<rparr>)
       \<and> orders (snd (verifyPayment hmac secret
            \<lparr>razorpay_order_id = Some gwOrder, razorpay_payment_id = Some gwPayment,
             razorpay_signature = Some (hmac secret (gwOrder @ ''|'' @ gwPayment)),
             order_id = Some i\<rparr> d)) i
          = Some (ord\<lparr>paymentInfo := \<lparr>pay_id = Some gwPayment, pay_status = Some ''completed'',
                                       pay_method = ''Razorpay''\<rparr>,
                      status := ''processing''\<rparr>)
       \<and> isl (fst (cancelOrder u i reason d)) \<and> snd (cancelOrder u i reason d) = d"
proof -
  from assms(1) have c1: "orders (snd (updateStatus i st d)) i = Some (ord\<lparr>status := st\<rparr>)"
    by (simp add: updateStatus_def Let_def)
  from assms(1,3,4,5,6) have c2: "orders (snd (verifyPayment hmac secret
            \<lparr>razorpay_order_id = Some gwOrder, razorpay_payment_id = Some gwPayment,
             razorpay_signature = Some (hmac secret (gwOrder @ ''|'' @ gwPayment)),
             order_id = Some i\<rparr> d)) i
          = Some (ord\<lparr>paymentInfo := \<lparr>pay_id = Some gwPayment, pay_status = Some ''completed'',
                                       pay_method = ''Razorpay''\<rparr>,
                      status := ''processing''\<rparr>)"
    by (simp add: verifyPayment_def Let_def)
  from cancelOrder_terminal [OF assms(1,2)]
  have c3: "isl (fst (cancelOrder u i reason d)) \<and> snd (cancelOrder u i reason d) = d" .
  from c1 c2 c3 show ?thesis by simp
qed

theorem terminal_status_overwritten_witness:
  "map_option status (orders db2 ''o1'') = Some ''delivered''
   \<and> map_option status (orders (snd (updateStatus ''o1'' ''pending'' db2)) ''o1'')
        = Some ''pending''
   \<and> map_option status (orders (snd (verifyPayment toyHmac ''k''
         \<lparr>razorpay_order_id = Some ''g1'', razorpay_payment_id = Some ''pay1'',
          razorpay_signature = Some ''k#g1|pay1'', order_id = Some ''o1''\<rparr> db2)) ''o1'')
        = Some ''processing''
   \<and> cancelOrder root ''o1'' (Some ''too late'') db2 = (Inl InvalidState, db2)"
proof -
  have there: "orders db2 ''o1'' = Some delivered1" by (simp add: db2_def)
  have final: "status delivered1 = ''delivered'' \<or> status delivered1 = ''cancelled''"
    by (simp add: delivered1_def)
  have given: "''o1'' \<noteq> []" "''g1'' \<noteq> []" "''pay1'' \<noteq> []"
    "toyHmac ''k'' (''g1'' @ ''|'' @ ''pay1'') \<noteq> []"
    by (simp_all add: toyHmac_def)
  have sig: "toyHmac ''k'' (''g1'' @ ''|'' @ ''pay1'') = ''k#g1|pay1''"
    by (simp add: toyHmac_def)
  have refused: "fst (cancelOrder root ''o1'' (Some ''too late'') db2) = Inl InvalidState"
    by (simp add: cancelOrder_def db2_def delivered1_def root_def)
  from terminal_status_overwritten
      [where hmac = toyHmac and secret = "''k''" and gwOrder = "''g1''" and gwPayment = "''pay1''"
         and st = "''pending''" and u = root and reason = "Some ''too late''",
       OF there final given]
    sig there refused
  show ?thesis by (simp add: delivered1_def prod_eq_iff)
qed

text \<open>
  C4. The code does not keep the stock of an order restored exactly when the order is
  cancelled. The admin status update gives an order any status and leaves every stock as
  it is, so an order it sets to cancelled keeps its deduction. And once it has set an
  order back to pending, whatever the status was, a cancellation by the owner or an admin
  succeeds and adds the order's quantities to the stocks: for an order that had been
  cancelled before, a second time.
\<close>

theorem status_update_breaks_restoration:
  assumes "orders d i = Some ord"
    and "reason \<noteq> []"
    and "role u = ''admin'' \<or> uid u = user ord"
  shows "products (snd (updateStatus i st d)) = products d
       \<and> orders (snd (updateStatus i st d)) i = Some (ord\<lparr>status := st\<rparr>)
       \<and> (\<forall>pid. products (snd (cancelOrder u i (Some reason)
                     (snd (updateStatus i ''pending'' d)))) pid =
             map_option (\<lambda>p. p\<lparr>stock := stock p + restorable pid (items ord)\<rparr>)
               (products d pid))"
proof -
  let ?pending = "ord\<lparr>status := ''pending''\<rparr>"
  let ?d1 = "d\<lparr>orders := (orders d)(i \<mapsto> ?pending)\<rparr>"
  from assms(1) have upd: "\<And>s. updateStatus i s d =
      (Inr (ord\<lparr>status := s\<rparr>), d\<lparr>orders := (orders d)(i \<mapsto> ord\<lparr>status := s\<rparr>)\<rparr>)"
    by (simp add: updateStatus_def Let_def)
  have c1: "products (snd (updateStatus i st d)) = products d" by (simp add: upd)
  have c2: "orders (snd (updateStatus i st d)) i = Some (ord\<lparr>status := st\<rparr>)"
    by (simp add: upd)
  have again: "snd (cancelOrder u i (Some reason) ?d1) =
      (restoreStock (items ord) ?d1)\<lparr>orders := (orders (restoreStock (items ord) ?d1))
         (i \<mapsto> ?pending\<lparr>status := ''cancelled'', cancellationReason := Some reason\<rparr>)\<rparr>"
    using assms(2,3) by (auto simp: cancelOrder_def Let_def)
  have c3: "\<forall>pid. products (snd (cancelOrder u i (Some reason)
                     (snd (updateStatus i ''pending'' d)))) pid =
             map_option (\<lambda>p. p\<lparr>stock := stock p + restorable pid (items ord)\<rparr>)
               (products d pid)"
    by (simp add: upd again restoreStock_products)
  from c1 c2 c3 show ?thesis by simp
qed

theorem status_update_breaks_restoration_witness:
  "createOrder ''o1'' alice
      \<lparr>req_items = Some [line ''p1'' 2], req_shippingAddress = ''12 Hill Road'',
       req_paymentMethod = Some ''cod''\<rparr> db0 = (Inr order1, db1)
   \<and> map_option stock (products db0 ''p1'') = Some 5
   \<and> map_option status (orders (snd (cancelOrder alice ''o1'' (Some ''ordered twice'') db1)) ''o1'')
        = Some ''cancelled''
   \<and> map_option stock (products (snd (cancelOrder alice ''o1'' (Some ''ordered twice'') db1)) ''p1'')
        = Some 5
   \<and> map_option stock (products (snd (cancelOrder alice ''o1'' (Some ''once more'')
        (snd (updateStatus ''o1'' ''pending''
          (snd (cancelOrder alice ''o1'' (Some ''ordered twice'') db1)))))) ''p1'') = Some 7
   \<and> map_option status (orders (snd (updateStatus ''o1'' ''cancelled'' db1)) ''o1'')
        = Some ''cancelled''
   \<and> map_option stock (products (snd (updateStatus ''o1'' ''cancelled'' db1)) ''p1'') = Some 3"
proof -
  let ?gone = "order1\<lparr>status := ''cancelled'', cancellationReason := Some ''ordered twice''\<rparr>"
  let ?dc = "\<lparr>products = [''p2'' \<mapsto> jeans, ''p1'' \<mapsto> shirt\<lparr>stock := 5\<rparr>],
              orders = [''o1'' \<mapsto> ?gone]\<rparr>"
  have low: "toLowerCase ''cod'' = ''cod''" by (simp add: toLowerCase_def toLowerChar_def)
  have c1: "createOrder ''o1'' alice
      \<lparr>req_items = Some [line ''p1'' 2], req_shippingAddress = ''12 Hill Road'',
       req_paymentMethod = Some ''cod''\<rparr> db0 = (Inr order1, db1)"
    by (simp add: createOrder_def low db0_def db1_def order1_def shirt_def jeans_def line_def
          alice_def Let_def)
  have c2: "map_option stock (products db0 ''p1'') = Some 5"
    by (simp add: db0_def shirt_def)
  have first: "cancelOrder alice ''o1'' (Some ''ordered twice'') db1 = (Inr ?gone, ?dc)"
    by (simp add: cancelOrder_def db1_def order1_def alice_def shirt_def Let_def)
  have there: "orders ?dc ''o1'' = Some ?gone" by simp
  have why: "''once more'' \<noteq> []" by simp
  have who: "role alice = ''admin'' \<or> uid alice = user ?gone"
    by (simp add: alice_def order1_def)
  from status_update_breaks_restoration [OF there why who]
  have "products (snd (cancelOrder alice ''o1'' (Some ''once more'')
          (snd (updateStatus ''o1'' ''pending'' ?dc)))) ''p1'' =
        map_option (\<lambda>p. p\<lparr>stock := stock p + restorable ''p1'' (items ?gone)\<rparr>)
          (products ?dc ''p1'')"
    by blast
  then have c3: "map_option stock (products (snd (cancelOrder alice ''o1'' (Some ''once more'')
          (snd (updateStatus ''o1'' ''pending'' ?dc)))) ''p1'') = Some 7"
    by (simp add: order1_def shirt_def)
  have here: "orders db1 ''o1'' = Some order1" by (simp add: db1_def)
  from status_update_breaks_restoration [OF here why who [simplified], of "''cancelled''"]
  have c4: "map_option status (orders (snd (updateStatus ''o1'' ''cancelled'' db1)) ''o1'')
        = Some ''cancelled''"
    and c5: "map_option stock (products (snd (updateStatus ''o1'' ''cancelled'' db1)) ''p1'') = Some 3"
    by (simp_all add: db1_def shirt_def)
  from c1 c2 c3 c4 c5 first show ?thesis by (simp add: shirt_def)
qed

section \<open>Claims about payment verification\<close>

text \<open>
  C6. With the gateway order id, the payment id and the signature all given, verification
  ends with VerificationFailed exactly when the keyed hash of
  \<open>gatewayOrderId|gatewayPaymentId\<close> differs from the signature, and then changes
  nothing. On a match it answers with the success payload that echoes both gateway ids; if a
  local order id was given and that order exists, its payment information becomes the
  payment id, \<open>completed\<close> and \<open>Razorpay\<close> and its status \<open>processing\<close>; if the
  local order does not exist, nothing is changed and the answer is the same success.
\<close>

theorem verifyPayment_signature:
  assumes "gwOrder \<noteq> []" and "gwPayment \<noteq> []" and "signature \<noteq> []"
  shows "((fst (verifyPayment hmac secret
             \<lparr>razorpay_order_id = Some gwOrder, razorpay_payment_id = Some gwPayment,
              razorpay_signature = Some signature, order_id = localId\<rparr> d) = Inl VerificationFailed)
          = (hmac secret (gwOrder @ ''|'' @ gwPayment) \<noteq> signature))
    \<and> (hmac secret (gwOrder @ ''|'' @ gwPayment) \<noteq> signature \<longrightarrow>
          snd (verifyPayment hmac secret
             \<lparr>razorpay_order_id = Some gwOrder, razorpay_payment_id = Some gwPayment,
              razorpay_signature = Some signature, order_id = localId\<rparr> d) = d)
    \<and> (hmac secret (gwOrder @ ''|'' @ gwPayment) = signature \<longrightarrow>
          fst (verifyPayment hmac secret
             \<lparr>razorpay_order_id = Some gwOrder, razorpay_payment_id = Some gwPayment,
              razorpay_signature = Some signature, order_id = localId\<rparr> d)
            = Inr \<lparr>resp_success = True, resp_message = ''Payment verified successfully'',
                   resp_orderId = gwOrder, resp_paymentId = gwPayment\<rparr>)
    \<and> (hmac secret (gwOrder @ ''|'' @ gwPayment) = signature \<and> localId = Some l \<and> l \<noteq> [] \<and>
        orders d l = Some ord \<longrightarrow>
          snd (verifyPayment hmac secret
             \<lparr>razorpay_order_id = Some gwOrder, razorpay_payment_id = Some gwPayment,
              razorpay_signature = Some signature, order_id = localId\<rparr> d)
            = d\<lparr>orders := (orders d)(l \<mapsto>
                 ord\<lparr>paymentInfo := \<lparr>pay_id = Some gwPayment, pay_status = Some ''completed'',
                                       pay_method = ''Razorpay''\<rparr>,
                     status := ''processing''\<rparr>)\<rparr>)
    \<and> (hmac secret (gwOrder @ ''|'' @ gwPayment) = signature \<and> localId = Some l \<and>
        orders d l = None \<longrightarrow>
          snd (verifyPayment hmac secret
             \<lparr>razorpay_order_id = Some gwOrder, razorpay_payment_id = Some gwPayment,
              razorpay_signature = Some signature, order_id = localId\<rparr> d) = d)"
  using assms by (simp add: verifyPayment_def Let_def)

theorem verifyPayment_signature_witness:
  "verifyPayment toyHmac ''k''
     \<lparr>razorpay_order_id = Some ''g1'', razorpay_payment_id = Some ''pay1'',
      razorpay_signature = Some ''k#g1|pay2'', order_id = Some ''o1''\<rparr> db1
     = (Inl VerificationFailed, db1)
   \<and> verifyPayment toyHmac ''k''
     \<lparr>razorpay_order_id = Some ''g1'', razorpay_payment_id = Some ''pay1'',
      razorpay_signature = Some ''k#g1|pay1'', order_id = Some ''o1''\<rparr> db1
     = (Inr \<lparr>resp_success = True, resp_message = ''Payment verified successfully'',
             resp_orderId = ''g1'', resp_paymentId = ''pay1''\<rparr>,
        db1\<lparr>orders := (orders db1)(''o1'' \<mapsto>
           order1\<lparr>paymentInfo := \<lparr>pay_id = Some ''pay1'', pay_status = Some ''completed'',
                                   pay_method = ''Razorpay''\<rparr>,
                  status := ''processing''\<rparr>)\<rparr>)
   \<and> verifyPayment toyHmac ''k''
     \<lparr>razorpay_order_id = Some ''g1'', razorpay_payment_id = Some ''pay1'',
      razorpay_signature = Some ''k#g1|pay1'', order_id = Some ''o9''\<rparr> db1
     = (Inr \<lparr>resp_success = True, resp_message = ''Payment verified successfully'',
             resp_orderId = ''g1'', resp_paymentId = ''pay1''\<rparr>, db1)"
proof -
  have a: "''g1'' \<noteq> []" "''pay1'' \<noteq> []" "''k#g1|pay2'' \<noteq> []" "''k#g1|pay1'' \<noteq> []"
    by simp_all
  have bad: "toyHmac ''k'' (''g1'' @ ''|'' @ ''pay1'') \<noteq> ''k#g1|pay2''"
    by (simp add: toyHmac_def)
  have good: "toyHmac ''k'' (''g1'' @ ''|'' @ ''pay1'') = ''k#g1|pay1''"
    by (simp add: toyHmac_def)
  have there: "orders db1 ''o1'' = Some order1" by (simp add: db1_def)
  have absent: "orders db1 ''o9'' = None" by (simp add: db1_def)
  from verifyPayment_signature [OF a(1) a(2) a(3), of toyHmac "''k''" "Some ''o1''" db1]
    bad
  have w1: "verifyPayment toyHmac ''k''
     \<lparr>razorpay_order_id = Some ''g1'', razorpay_payment_id = Some ''pay1'',
      razorpay_signature = Some ''k#g1|pay2'', order_id = Some ''o1''\<rparr> db1
     = (Inl VerificationFailed, db1)"
    by (simp add: prod_eq_iff)
  from verifyPayment_signature [OF a(1) a(2) a(4), of toyHmac "''k''" "Some ''o1''" db1 "''o1''" order1]
    good there
  have w2: "verifyPayment toyHmac ''k''
     \<lparr>razorpay_order_id = Some ''g1'', razorpay_payment_id = Some ''pay1'',
      razorpay_signature = Some ''k#g1|pay1'', order_id = Some ''o1''\<rparr> db1
     = (Inr \<lparr>resp_success = True, resp_message = ''Payment verified successfully'',
             resp_orderId = ''g1'', resp_paymentId = ''pay1''\<rparr>,
        db1\<lparr>orders := (orders db1)(''o1'' \<mapsto>
           order1\<lparr>paymentInfo := \<lparr>pay_id = Some ''pay1'', pay_status = Some ''completed'',
                                   pay_method = ''Razorpay''\<rparr>,
                  status := ''processing''\<rparr>)\<rparr>)"
    by (simp add: prod_eq_iff)
  from verifyPayment_signature [OF a(1) a(2) a(4), of toyHmac "''k''" "Some ''o9''" db1 "''o9''"]
    good absent
  have w3: "verifyPayment toyHmac ''k''
     \<lparr>razorpay_order_id = Some ''g1'', razorpay_payment_id = Some ''pay1'',
      razorpay_signature = Some ''k#g1|pay1'', order_id = Some ''o9''\<rparr> db1
     = (Inr \<lparr>resp_success = True, resp_message = ''Payment verified successfully'',
             resp_orderId = ''g1'', resp_paymentId = ''pay1''\<rparr>, db1)"
    by (simp add: prod_eq_iff)
  from w1 w2 w3 show ?thesis by simp
qed

section \<open>Claims about the catalog listing\<close>




end
